theory Spec2Isabelle
  imports Complex_Main "HOL-Library.Sublist"
begin

section \<open>Errors raised by the backend\<close>

text \<open>
  Every exception the modelled code can raise is a value: the HTTP rejections of the
  routes (status code and detail), the failures of Python itself, the failures of the
  database layer (SQLAlchemy's \<open>MultipleResultsFound\<close> and the constraint violation
  reported at flush time), and those of pandas (\<open>DateParseError\<close> stands for whatever
  \<open>pd.to_datetime\<close> raises on a value it cannot read).
\<close>

datatype error =
    HTTPException nat string
  | IndexError
  | OverflowError
  | ValueError string
  | MultipleResultsFound
  | IntegrityError
  | AttributeError
  | DateParseError

section \<open>Assignment grader (app/routes/shared\_content\_routes.py)\<close>

subsection \<open>Schemas\<close>

text \<open>
  The pydantic schemas of the route file. A shared assignment stores
  \<open>json.dumps([q.dict() for q in questions])\<close> and every reader applies \<open>json.loads\<close>:
  the stored text is modelled by the list of questions it encodes, so each question
  carries a \<open>type\<close> and each option an \<open>isCorrect\<close> flag. Field names that several
  schemas share are prefixed, since record fields are global names here.
\<close>

record AssignmentQuestionOption =
  option_text :: string
  isCorrect :: bool

record AssignmentQuestion =
  question_text :: string
  helperText :: "string option"
  qtype :: string
  options :: "AssignmentQuestionOption list"

record AnswerSubmission =
  questionIndex :: int
  atype :: string
  selectedOptions :: "int list"
  textAnswer :: "string option"

record QuestionResult =
  qr_questionIndex :: int
  qr_isCorrect :: bool
  correctAnswers :: "int list"
  userAnswers :: "int list"
  userTextAnswer :: "string option"

subsection \<open>Python list indexing\<close>

text \<open>
  \<open>xs[i]\<close>: a negative index counts from the end, and an index outside
  \<open>-len(xs) .. len(xs) - 1\<close> raises \<open>IndexError\<close>.
\<close>

definition py_getitem :: "'a list \<Rightarrow> int \<Rightarrow> error + 'a" where
  "py_getitem xs i =
     (if 0 \<le> i \<and> i < int (length xs) then Inr (xs ! nat i)
      else if i < 0 \<and> - int (length xs) \<le> i then Inr (xs ! nat (int (length xs) + i))
      else Inl IndexError)"

subsection \<open>Evaluating one answer\<close>

text \<open>
  \<open>for idx, opt in enumerate(options): if opt.get("isCorrect", False):
  correct_indices.append(idx)\<close>
\<close>

definition correct_indices_of :: "AssignmentQuestionOption list \<Rightarrow> int list" where
  "correct_indices_of opts = [int idx. (idx, opt) \<leftarrow> enumerate 0 opts, isCorrect opt]"

text \<open>
  The body of the loop \<open>for answer in submission_data.answers\<close> of \<open>submit_assignment\<close>.
  \<open>Inr None\<close> is the \<open>continue\<close> taken when the index is not below the number of
  questions; the only guard is \<open>answer.questionIndex >= len(questions_data)\<close>, so a
  negative index reaches \<open>questions_data[answer.questionIndex]\<close>.
\<close>

definition evaluate_answer ::
  "AssignmentQuestion list \<Rightarrow> AnswerSubmission \<Rightarrow> error + QuestionResult option" where
  "evaluate_answer questions_data answer =
     (if questionIndex answer \<ge> int (length questions_data) then Inr None
      else
        case py_getitem questions_data (questionIndex answer) of
          Inl e \<Rightarrow> Inl e
        | Inr question \<Rightarrow>
            let user_indices = selectedOptions answer;
                correct_indices =
                  (if qtype question \<in> {''single-choice'', ''multiple-choice''}
                   then correct_indices_of (options question) else []);
                is_correct =
                  (if qtype question \<in> {''single-choice'', ''multiple-choice''} then
                     (if qtype question = ''single-choice'' then
                        length (selectedOptions answer) = 1
                        \<and> hd (selectedOptions answer) \<in> set correct_indices
                      else if qtype question = ''multiple-choice'' then
                        set (selectedOptions answer) = set correct_indices
                      else False)
                   else if qtype question = ''text-input'' then False
                   else False)
            in Inr (Some \<lparr> qr_questionIndex = questionIndex answer,
                           qr_isCorrect = is_correct,
                           correctAnswers = correct_indices,
                           userAnswers = user_indices,
                           userTextAnswer =
                             (if qtype question = ''text-input'' then textAnswer answer
                              else None) \<rparr>))"

text \<open>
  The loop itself, with its two accumulators \<open>correct_count\<close> and \<open>question_results\<close>.
  An exception in the body leaves the loop.
\<close>

fun evaluate_answers ::
  "AssignmentQuestion list \<Rightarrow> AnswerSubmission list \<Rightarrow> nat \<times> QuestionResult list
   \<Rightarrow> error + (nat \<times> QuestionResult list)" where
  "evaluate_answers questions_data [] acc = Inr acc"
| "evaluate_answers questions_data (answer # rest) (correct_count, question_results) =
     (case evaluate_answer questions_data answer of
        Inl e \<Rightarrow> Inl e
      | Inr None \<Rightarrow> evaluate_answers questions_data rest (correct_count, question_results)
      | Inr (Some qr) \<Rightarrow>
          evaluate_answers questions_data rest
            (if qr_isCorrect qr then correct_count + 1 else correct_count,
             question_results @ [qr]))"

subsection \<open>The score: Python float arithmetic\<close>

text \<open>
  \<open>score = int((correct_count / total_questions * 100)) if total_questions > 0 else 0\<close>.
  \<open>/\<close> on two ints is true division and yields a float, \<open>* 100\<close> is a float product,
  and \<open>int\<close> truncates. A Python float is an IEEE 754 binary64 number, and both
  operations return the exact result rounded to the nearest representable number, ties
  to the even mantissa. A non-negative float is modelled exactly, as the pair \<open>(m, e)\<close>
  of its value \<open>m * 2^e\<close>, with \<open>m \<le> 2^53\<close> and \<open>-1074 \<le> e\<close>.
\<close>

type_synonym binary64 = "nat \<times> int"

fun bit_length :: "nat \<Rightarrow> nat" where
  "bit_length n = (if n = 0 then 0 else Suc (bit_length (n div 2)))"

declare bit_length.simps [simp del]

definition round_half_even_div :: "nat \<Rightarrow> nat \<Rightarrow> nat" where
  \<comment> \<open>\<open>p / q\<close> rounded to the nearest integer, a tie to the even one\<close>
  "round_half_even_div p q =
     (let d = p div q; r = p mod q
      in if 2 * r < q then d else if q < 2 * r then d + 1
         else if even d then d else d + 1)"

definition floor_log2 :: "nat \<Rightarrow> nat \<Rightarrow> int" where
  \<comment> \<open>\<open>\<lfloor>log\<^sub>2 (p / q)\<rfloor>\<close> for positive \<open>p\<close> and \<open>q\<close>\<close>
  "floor_log2 p q =
     (let k = int (bit_length p) - int (bit_length q)
      in if (if 0 \<le> k then q * 2 ^ nat k \<le> p else q \<le> p * 2 ^ nat (- k))
         then k else k - 1)"

definition round_binary64 :: "nat \<Rightarrow> nat \<Rightarrow> binary64" where
  \<comment> \<open>the float nearest to \<open>p / q\<close>, for \<open>q > 0\<close>\<close>
  "round_binary64 p q =
     (if p = 0 then (0, 0)
      else let e = max (floor_log2 p q - 52) (- 1074)
           in (if 0 \<le> e then round_half_even_div p (q * 2 ^ nat e)
               else round_half_even_div (p * 2 ^ nat (- e)) q, e))"

definition float_overflow :: "binary64 \<Rightarrow> bool" where
  \<comment> \<open>the rounded value is beyond the largest finite float\<close>
  "float_overflow x = (case x of (m, e) \<Rightarrow> 971 \<le> e \<and> 2 ^ 53 * 2 ^ 971 \<le> m * 2 ^ nat e)"
  \<comment> \<open>\<open>2^53 * 2^971 = 2^1024\<close>; a rounded mantissa is at most \<open>2^53\<close>, so a value with
      \<open>e < 971\<close> is finite\<close>

definition int_true_div :: "nat \<Rightarrow> nat \<Rightarrow> error + binary64" where
  \<comment> \<open>\<open>a / b\<close> on ints, \<open>b > 0\<close>; Python raises \<open>OverflowError\<close> when the result is
      too large for a float\<close>
  "int_true_div a b =
     (let r = round_binary64 a b in if float_overflow r then Inl OverflowError else Inr r)"

definition float_mul_int :: "binary64 \<Rightarrow> nat \<Rightarrow> binary64" where
  \<comment> \<open>\<open>x * n\<close>: the exact product \<open>m * n * 2^e\<close>, rounded\<close>
  "float_mul_int x n =
     (case x of (m, e) \<Rightarrow>
        if 0 \<le> e then round_binary64 (m * n * 2 ^ nat e) 1
        else round_binary64 (m * n) (2 ^ nat (- e)))"

definition float_to_int :: "binary64 \<Rightarrow> error + int" where
  \<comment> \<open>\<open>int(x)\<close> truncates; on the infinity an overflowing product yields it raises
      \<open>OverflowError\<close>\<close>
  "float_to_int x =
     (if float_overflow x then Inl OverflowError
      else case x of (m, e) \<Rightarrow>
        Inr (if 0 \<le> e then int (m * 2 ^ nat e) else int (m div 2 ^ nat (- e))))"

definition calculate_score :: "nat \<Rightarrow> nat \<Rightarrow> error + int" where
  "calculate_score correct_count total_questions =
     (if total_questions > 0 then
        (case int_true_div correct_count total_questions of
           Inl e \<Rightarrow> Inl e
         | Inr ratio \<Rightarrow> float_to_int (float_mul_int ratio 100))
      else Inr 0)"

subsection \<open>Tables read and written by the routes\<close>

text \<open>
  The rows of \<open>app/models.py\<close> that the assignment routes touch. \<open>assignment_data\<close> and
  \<open>answers_data\<close> hold the decoded JSON. A timestamp is a number; \<open>datetime.utcnow\<close>
  is an argument \<open>now\<close> of the route that stores it. The identifier of a new submission
  comes from the table's sequence.
\<close>

record TrainingAssignment =
  ta_training_id :: int
  ta_employee_empid :: string
  ta_manager_empid :: string

record SharedAssignment =
  sa_id :: int
  sa_training_id :: int
  sa_trainer_username :: string
  sa_title :: string
  sa_description :: "string option"
  assignment_data :: "AssignmentQuestion list"
  sa_created_at :: nat
  sa_updated_at :: nat

record AssignmentSubmission =
  sub_id :: int
  sub_training_id :: int
  sub_shared_assignment_id :: int
  sub_employee_empid :: string
  answers_data :: "AnswerSubmission list"
  score :: int
  total_questions :: nat
  correct_answers :: nat
  submitted_at :: nat

record database =
  training_assignments :: "TrainingAssignment list"
  shared_assignments :: "SharedAssignment list"
  assignment_submissions :: "AssignmentSubmission list"
  assignment_submissions_id_seq :: int

text \<open>
  SQLAlchemy's \<open>Result.scalar_one_or_none()\<close>: no row gives \<open>None\<close>, one row gives
  that row, more than one row raises \<open>MultipleResultsFound\<close>.
\<close>

fun scalar_one_or_none :: "'a list \<Rightarrow> error + 'a option" where
  "scalar_one_or_none [] = Inr None"
| "scalar_one_or_none [x] = Inr (Some x)"
| "scalar_one_or_none (x # y # rest) = Inl MultipleResultsFound"

text \<open>\<open>if not employee_username\<close>: the key is missing or the name is empty.\<close>

definition get_username :: "string option \<Rightarrow> error + string" where
  "get_username current_user =
     (case current_user of
        None \<Rightarrow> Inl (HTTPException 401 ''Could not validate credentials'')
      | Some u \<Rightarrow>
          if u = [] then Inl (HTTPException 401 ''Could not validate credentials'')
          else Inr u)"

definition select_training_assignment ::
  "database \<Rightarrow> int \<Rightarrow> string \<Rightarrow> error + TrainingAssignment option" where
  "select_training_assignment db training_id employee_username =
     scalar_one_or_none
       (filter (\<lambda>t. ta_training_id t = training_id \<and> ta_employee_empid t = employee_username)
          (training_assignments db))"

subsection \<open>\<open>get_shared_assignment\<close>\<close>

record SharedAssignmentResponse =
  resp_id :: int
  resp_training_id :: int
  resp_trainer_username :: string
  resp_title :: string
  resp_description :: "string option"
  questions :: "AssignmentQuestion list"
  resp_created_at :: nat
  resp_updated_at :: nat

text \<open>
  The response schema declares \<open>questions: List[Dict[str, Any]]\<close>, so the response model
  keeps every key of every decoded question: \<open>questions=questions_data\<close> is the stored
  list itself.
\<close>

definition get_shared_assignment ::
  "database \<Rightarrow> string option \<Rightarrow> int \<Rightarrow> error + SharedAssignmentResponse option" where
  "get_shared_assignment db current_user training_id =
     (case get_username current_user of
        Inl e \<Rightarrow> Inl e
      | Inr employee_username \<Rightarrow>
     (case select_training_assignment db training_id employee_username of
        Inl e \<Rightarrow> Inl e
      | Inr None \<Rightarrow>
          Inl (HTTPException 403
                 ''You can only access assignments for trainings assigned to you'')
      | Inr (Some assignment) \<Rightarrow>
     (case scalar_one_or_none
             (filter (\<lambda>s. sa_training_id s = training_id) (shared_assignments db)) of
        Inl e \<Rightarrow> Inl e
      | Inr None \<Rightarrow> Inr None
      | Inr (Some shared_assignment) \<Rightarrow>
          Inr (Some \<lparr> resp_id = sa_id shared_assignment,
                       resp_training_id = sa_training_id shared_assignment,
                       resp_trainer_username = sa_trainer_username shared_assignment,
                       resp_title = sa_title shared_assignment,
                       resp_description = sa_description shared_assignment,
                       questions = assignment_data shared_assignment,
                       resp_created_at = sa_created_at shared_assignment,
                       resp_updated_at = sa_updated_at shared_assignment \<rparr>))))"

subsection \<open>\<open>submit_assignment\<close>\<close>

record AssignmentSubmissionCreate =
  training_id :: int
  shared_assignment_id :: int
  answers :: "AnswerSubmission list"

record AssignmentResultResponse =
  res_id :: int
  res_training_id :: int
  res_score :: int
  res_total_questions :: nat
  res_correct_answers :: nat
  res_question_results :: "QuestionResult list"
  res_submitted_at :: nat

record grading =
  g_score :: int
  g_total_questions :: nat
  g_correct_count :: nat
  g_question_results :: "QuestionResult list"

text \<open>
  The grading part of the route, from \<open>total_questions = len(questions_data)\<close> to the
  computation of \<open>score\<close>.
\<close>

definition grade :: "AssignmentQuestion list \<Rightarrow> AnswerSubmission list \<Rightarrow> error + grading" where
  "grade questions_data submitted =
     (let total_questions = length questions_data
      in case evaluate_answers questions_data submitted (0, []) of
           Inl e \<Rightarrow> Inl e
         | Inr (correct_count, question_results) \<Rightarrow>
             (case calculate_score correct_count total_questions of
                Inl e \<Rightarrow> Inl e
              | Inr percentage \<Rightarrow>
                  Inr \<lparr> g_score = percentage, g_total_questions = total_questions,
                        g_correct_count = correct_count,
                        g_question_results = question_results \<rparr>))"

definition submit_assignment ::
  "database \<Rightarrow> string option \<Rightarrow> nat \<Rightarrow> AssignmentSubmissionCreate
   \<Rightarrow> error + (database \<times> AssignmentResultResponse)" where
  "submit_assignment db current_user now submission_data =
     (case get_username current_user of
        Inl e \<Rightarrow> Inl e
      | Inr employee_username \<Rightarrow>
     (case select_training_assignment db (training_id submission_data) employee_username of
        Inl e \<Rightarrow> Inl e
      | Inr None \<Rightarrow>
          Inl (HTTPException 403
                 ''You can only submit assignments for trainings assigned to you'')
      | Inr (Some assignment) \<Rightarrow>
     (case scalar_one_or_none
             (filter (\<lambda>s. sa_id s = shared_assignment_id submission_data
                          \<and> sa_training_id s = training_id submission_data)
                (shared_assignments db)) of
        Inl e \<Rightarrow> Inl e
      | Inr None \<Rightarrow> Inl (HTTPException 404 ''Assignment not found'')
      | Inr (Some shared_assignment) \<Rightarrow>
     (case grade (assignment_data shared_assignment) (answers submission_data) of
        Inl e \<Rightarrow> Inl e
      | Inr g \<Rightarrow>
          let new_id = assignment_submissions_id_seq db + 1;
              submission =
                \<lparr> sub_id = new_id,
                  sub_training_id = training_id submission_data,
                  sub_shared_assignment_id = shared_assignment_id submission_data,
                  sub_employee_empid = employee_username,
                  answers_data = answers submission_data,
                  score = g_score g,
                  total_questions = g_total_questions g,
                  correct_answers = g_correct_count g,
                  submitted_at = now \<rparr>
          in Inr (db \<lparr> assignment_submissions := assignment_submissions db @ [submission],
                       assignment_submissions_id_seq := new_id \<rparr>,
                  \<lparr> res_id = sub_id submission,
                    res_training_id = sub_training_id submission,
                    res_score = score submission,
                    res_total_questions = total_questions submission,
                    res_correct_answers = correct_answers submission,
                    res_question_results = g_question_results g,
                    res_submitted_at = submitted_at submission \<rparr>)))))"

subsection \<open>\<open>get_assignment_result\<close>\<close>

text \<open>
  The second loop of the file, which rebuilds the per-question results from the stored
  answers and the current key; it has the same guard and the same rules as the first.
\<close>

definition reconstruct_result ::
  "AssignmentQuestion list \<Rightarrow> AnswerSubmission \<Rightarrow> error + QuestionResult option" where
  "reconstruct_result questions_data answer =
     (let question_idx = questionIndex answer
      in if question_idx \<ge> int (length questions_data) then Inr None
         else
           case py_getitem questions_data question_idx of
             Inl e \<Rightarrow> Inl e
           | Inr question \<Rightarrow>
               let user_indices = selectedOptions answer;
                   correct_indices =
                     (if qtype question \<in> {''single-choice'', ''multiple-choice''}
                      then correct_indices_of (options question) else []);
                   is_correct =
                     (if qtype question = ''single-choice'' then
                        length user_indices = 1 \<and> hd user_indices \<in> set correct_indices
                      else if qtype question = ''multiple-choice'' then
                        set user_indices = set correct_indices
                      else False)
               in Inr (Some \<lparr> qr_questionIndex = question_idx,
                              qr_isCorrect = is_correct,
                              correctAnswers = correct_indices,
                              userAnswers = user_indices,
                              userTextAnswer =
                                (if qtype question = ''text-input'' then textAnswer answer
                                 else None) \<rparr>))"

fun reconstruct_results ::
  "AssignmentQuestion list \<Rightarrow> AnswerSubmission list \<Rightarrow> QuestionResult list
   \<Rightarrow> error + QuestionResult list" where
  "reconstruct_results questions_data [] question_results = Inr question_results"
| "reconstruct_results questions_data (answer # rest) question_results =
     (case reconstruct_result questions_data answer of
        Inl e \<Rightarrow> Inl e
      | Inr None \<Rightarrow> reconstruct_results questions_data rest question_results
      | Inr (Some qr) \<Rightarrow> reconstruct_results questions_data rest (question_results @ [qr]))"

text \<open>
  \<open>.order_by(AssignmentSubmission.submitted_at.desc())\<close>: the rows by decreasing
  \<open>submitted_at\<close>.
\<close>

definition order_by_submitted_at_desc :: "AssignmentSubmission list \<Rightarrow> AssignmentSubmission list" where
  "order_by_submitted_at_desc rows = rev (sort_key submitted_at rows)"

definition get_assignment_result ::
  "database \<Rightarrow> string option \<Rightarrow> int \<Rightarrow> error + AssignmentResultResponse option" where
  "get_assignment_result db current_user tid =
     (case get_username current_user of
        Inl e \<Rightarrow> Inl e
      | Inr employee_username \<Rightarrow>
     (case select_training_assignment db tid employee_username of
        Inl e \<Rightarrow> Inl e
      | Inr None \<Rightarrow>
          Inl (HTTPException 403
                 ''You can only access results for trainings assigned to you'')
      | Inr (Some assignment) \<Rightarrow>
     (case scalar_one_or_none
             (filter (\<lambda>s. sa_training_id s = tid) (shared_assignments db)) of
        Inl e \<Rightarrow> Inl e
      | Inr None \<Rightarrow> Inr None
      | Inr (Some shared_assignment) \<Rightarrow>
     (case scalar_one_or_none
             (order_by_submitted_at_desc
                (filter (\<lambda>s. sub_training_id s = tid
                             \<and> sub_employee_empid s = employee_username
                             \<and> sub_shared_assignment_id s = sa_id shared_assignment)
                   (assignment_submissions db))) of
        Inl e \<Rightarrow> Inl e
      | Inr None \<Rightarrow> Inr None
      | Inr (Some submission) \<Rightarrow>
     (case reconstruct_results (assignment_data shared_assignment)
             (answers_data submission) [] of
        Inl e \<Rightarrow> Inl e
      | Inr results \<Rightarrow>
          Inr (Some \<lparr> res_id = sub_id submission,
                       res_training_id = sub_training_id submission,
                       res_score = score submission,
                       res_total_questions = total_questions submission,
                       res_correct_answers = correct_answers submission,
                       res_question_results = results,
                       res_submitted_at = submitted_at submission \<rparr>))))))"

subsection \<open>Concrete keys, submissions and databases\<close>

text \<open>
  A key with one question of each type: a single-choice question whose correct option
  is number 2, a multiple-choice question whose correct options are 0 and 2, and a
  text-input question; and a submission that answers all three.
\<close>

definition example_key :: "AssignmentQuestion list" where
  "example_key =
     [\<lparr> question_text = ''Q1'', helperText = Some '''', qtype = ''single-choice'',
        options = [\<lparr> option_text = ''a'', isCorrect = False \<rparr>,
                   \<lparr> option_text = ''b'', isCorrect = False \<rparr>,
                   \<lparr> option_text = ''c'', isCorrect = True \<rparr>] \<rparr>,
      \<lparr> question_text = ''Q2'', helperText = Some '''', qtype = ''multiple-choice'',
        options = [\<lparr> option_text = ''a'', isCorrect = True \<rparr>,
                   \<lparr> option_text = ''b'', isCorrect = False \<rparr>,
                   \<lparr> option_text = ''c'', isCorrect = True \<rparr>] \<rparr>,
      \<lparr> question_text = ''Q3'', helperText = Some '''', qtype = ''text-input'',
        options = [] \<rparr>]"

definition example_answer :: AnswerSubmission where
  "example_answer =
     \<lparr> questionIndex = 0, atype = ''single-choice'', selectedOptions = [2],
       textAnswer = Some '''' \<rparr>"

definition example_answers :: "AnswerSubmission list" where
  "example_answers =
     [example_answer,
      \<lparr> questionIndex = 1, atype = ''multiple-choice'', selectedOptions = [2, 0],
        textAnswer = Some '''' \<rparr>,
      \<lparr> questionIndex = 2, atype = ''text-input'', selectedOptions = [],
        textAnswer = Some ''essay'' \<rparr>]"

definition example_grading :: grading where
  "example_grading =
     \<lparr> g_score = 66, g_total_questions = 3, g_correct_count = 2,
       g_question_results =
         [\<lparr> qr_questionIndex = 0, qr_isCorrect = True, correctAnswers = [2],
            userAnswers = [2], userTextAnswer = None \<rparr>,
          \<lparr> qr_questionIndex = 1, qr_isCorrect = True, correctAnswers = [0, 2],
            userAnswers = [2, 0], userTextAnswer = None \<rparr>,
          \<lparr> qr_questionIndex = 2, qr_isCorrect = False, correctAnswers = [],
            userAnswers = [], userTextAnswer = Some ''essay'' \<rparr>] \<rparr>"

text \<open>A key of one single-choice question, answered through a chosen index.\<close>

definition yes_no_question :: "bool \<Rightarrow> AssignmentQuestion" where
  "yes_no_question flag =
     \<lparr> question_text = ''Q'', helperText = Some '''', qtype = ''single-choice'',
       options = [\<lparr> option_text = ''yes'', isCorrect = flag \<rparr>,
                  \<lparr> option_text = ''no'', isCorrect = \<not> flag \<rparr>] \<rparr>"

definition answer_yes :: "int \<Rightarrow> AnswerSubmission" where
  "answer_yes idx =
     \<lparr> questionIndex = idx, atype = ''single-choice'', selectedOptions = [0],
       textAnswer = Some '''' \<rparr>"

text \<open>
  A database in which training 1 is assigned to employee \<open>E100\<close> and has a shared
  assignment made of the question above; nothing has been submitted.
\<close>

definition example_db :: "bool \<Rightarrow> database" where
  "example_db flag =
     \<lparr> training_assignments =
         [\<lparr> ta_training_id = 1, ta_employee_empid = ''E100'', ta_manager_empid = ''M1'' \<rparr>],
       shared_assignments =
         [\<lparr> sa_id = 1, sa_training_id = 1, sa_trainer_username = ''T1'',
            sa_title = ''Quiz'', sa_description = Some '''',
            assignment_data = [yes_no_question flag],
            sa_created_at = 0, sa_updated_at = 0 \<rparr>],
       assignment_submissions = [],
       assignment_submissions_id_seq = 0 \<rparr>"

definition example_submission :: "AnswerSubmission list \<Rightarrow> AssignmentSubmissionCreate" where
  "example_submission submitted =
     \<lparr> training_id = 1, shared_assignment_id = 1, answers = submitted \<rparr>"

section \<open>Bulk loader (app/excel\_loader.py)\<close>

subsection \<open>Python strings\<close>

text \<open>
  A string is a list of characters with code points below 256. On these, \<open>str.lower\<close>
  adds 32 to the code points of \<open>A\<close>..\<open>Z\<close> and of the accented capitals
  \<open>0xC0\<close>..\<open>0xDE\<close> other than the multiplication sign \<open>0xD7\<close> (that is, it sets bit 5),
  \<open>str.strip\<close> removes the characters for which \<open>str.isspace\<close> holds at both ends,
  \<open>len\<close> counts characters, and \<open>a in b\<close> holds when \<open>a\<close> is a contiguous part of
  \<open>b\<close>.
\<close>

definition is_upper :: "char \<Rightarrow> bool" where
  "is_upper c =
     ((65 :: nat) \<le> of_char c \<and> of_char c \<le> (90 :: nat)
      \<or> (192 :: nat) \<le> of_char c \<and> of_char c \<le> (222 :: nat)
        \<and> of_char c \<noteq> (215 :: nat))"

definition lower_char :: "char \<Rightarrow> char" where
  "lower_char c =
     (if is_upper c
      then (case c of Char b0 b1 b2 b3 b4 b5 b6 b7 \<Rightarrow> Char b0 b1 b2 b3 b4 True b6 b7)
      else c)"

definition lower :: "string \<Rightarrow> string" where
  "lower s = map lower_char s"

definition is_space :: "char \<Rightarrow> bool" where
  "is_space c =
     (c \<in> {CHR '' '', CHR 0x09, CHR 0x0A, CHR 0x0B, CHR 0x0C, CHR 0x0D,
            CHR 0x1C, CHR 0x1D, CHR 0x1E, CHR 0x1F, CHR 0x85, CHR 0xA0})"

definition strip :: "string \<Rightarrow> string" where
  "strip s = rev (dropWhile is_space (rev (dropWhile is_space s)))"

definition replace_char :: "char \<Rightarrow> string \<Rightarrow> string \<Rightarrow> string" where
  \<comment> \<open>\<open>s.replace(c, r)\<close> for a pattern \<open>c\<close> of one character\<close>
  "replace_char c r s = concat (map (\<lambda>x. if x = c then r else [x]) s)"

fun py_in :: "string \<Rightarrow> string \<Rightarrow> bool" where
  "py_in a [] = (a = [])"
| "py_in a (c # cs) = (prefix a (c # cs) \<or> py_in a cs)"

fun join :: "string \<Rightarrow> string list \<Rightarrow> string" where
  "join sep [] = []"
| "join sep [x] = x"
| "join sep (x # y # rest) = x @ sep @ join sep (y # rest)"

definition clean_header :: "string \<Rightarrow> string" where
  \<comment> \<open>\<open>clean_headers\<close>, applied to one column name\<close>
  "clean_header h =
     replace_char (CHR ''*'') ''''
       (replace_char (CHR '','') ''_''
          (replace_char (CHR ''/'') ''_''
             (replace_char (CHR '' '') ''_'' (lower (strip h)))))"

subsection \<open>Cells and rows\<close>

text \<open>
  A value read from a sheet after \<open>replace({np.nan: None})\<close>: nothing, text, a number,
  a truth value or a timestamp. A row is the dict of \<open>to_dict('records')\<close>, kept as the
  list of its items in column order (the keys are distinct); \<open>row.get(k)\<close> is \<open>None\<close>
  for a missing key.
\<close>

datatype cell = PyNone | PyStr string | PyNum rat | PyBool bool | PyTimestamp nat

type_synonym row_dict = "(string \<times> cell) list"

fun truthy :: "cell \<Rightarrow> bool" where
  "truthy PyNone = False"
| "truthy (PyStr s) = (s \<noteq> [])"
| "truthy (PyNum x) = (x \<noteq> 0)"
| "truthy (PyBool b) = b"
| "truthy (PyTimestamp t) = True"

definition py_or :: "cell \<Rightarrow> cell \<Rightarrow> cell" where
  "py_or a b = (if truthy a then a else b)"

definition row_get :: "row_dict \<Rightarrow> string \<Rightarrow> cell" where
  "row_get row k = (case map_of row k of None \<Rightarrow> PyNone | Some v \<Rightarrow> v)"

fun strip_if_str :: "cell \<Rightarrow> cell" where
  \<comment> \<open>\<open>if v and isinstance(v, str): v = v.strip()\<close>\<close>
  "strip_if_str (PyStr s) = (if s \<noteq> [] then PyStr (strip s) else PyStr s)"
| "strip_if_str v = v"

subsection \<open>\<open>find_column_flexible\<close>\<close>

text \<open>
  The three loops of the function, each returning at its first hit; \<open>None\<close> of a loop
  means that it fell through to the next one.
\<close>

fun exact_match :: "row_dict \<Rightarrow> string list \<Rightarrow> cell option" where
  "exact_match row [] = None"
| "exact_match row (name # names) =
     (if name \<in> set (map fst row) then Some (row_get row name)
      else exact_match row names)"

text \<open>
  \<open>row_keys_lower = {k.lower(): k for k in row_dict.keys()}\<close>: of several keys with one
  lower-case form, the last one is kept.
\<close>

definition row_keys_lower :: "row_dict \<Rightarrow> (string \<times> string) list" where
  "row_keys_lower row = map (\<lambda>k. (lower k, k)) (rev (map fst row))"

fun case_insensitive_match :: "row_dict \<Rightarrow> string list \<Rightarrow> cell option" where
  "case_insensitive_match row [] = None"
| "case_insensitive_match row (name # names) =
     (case map_of (row_keys_lower row) (lower name) of
        Some k \<Rightarrow> Some (row_get row k)
      | None \<Rightarrow> case_insensitive_match row names)"

definition partial_match :: "string \<Rightarrow> string \<Rightarrow> bool" where
  \<comment> \<open>the two nested \<open>if\<close>s of the third loop\<close>
  "partial_match name key =
     (let key_lower = lower key; name_lower = lower name
      in (py_in name_lower key_lower \<or> py_in key_lower name_lower)
         \<and> (length name > 3 \<or> (length name \<le> 3 \<and> name_lower = key_lower)))"

fun substring_match :: "row_dict \<Rightarrow> string list \<Rightarrow> cell option" where
  "substring_match row [] = None"
| "substring_match row (name # names) =
     (case find (partial_match name) (map fst row) of
        Some key \<Rightarrow> Some (row_get row key)
      | None \<Rightarrow> substring_match row names)"

definition find_column_flexible :: "row_dict \<Rightarrow> string list \<Rightarrow> cell" where
  "find_column_flexible row_dict possible_names =
     (case exact_match row_dict possible_names of
        Some v \<Rightarrow> v
      | None \<Rightarrow>
          (case case_insensitive_match row_dict possible_names of
             Some v \<Rightarrow> v
           | None \<Rightarrow>
               (case substring_match row_dict possible_names of
                  Some v \<Rightarrow> v
                | None \<Rightarrow> PyNone)))"

text \<open>
  The resolver as the design describes it, to be compared with the function above: the
  first candidate that is a header; failing that, the first candidate equal to a header
  up to case; failing that, the first candidate that contains a header or is contained
  in one, where a candidate of at most three characters only counts when it equals the
  header up to case; failing that, nothing. \<open>Some\<close> carries the header that was chosen.
\<close>

definition contains_either_way :: "string \<Rightarrow> string \<Rightarrow> bool" where
  "contains_either_way name key =
     (sublist (lower name) (lower key) \<or> sublist (lower key) (lower name))"

definition gated_substring :: "string \<Rightarrow> string \<Rightarrow> bool" where
  "gated_substring name key =
     (contains_either_way name key \<and> (length name \<le> 3 \<longrightarrow> lower name = lower key))"

definition resolved_header :: "string list \<Rightarrow> string list \<Rightarrow> string option" where
  "resolved_header headers candidates =
     (case find (\<lambda>c. c \<in> set headers) candidates of
        Some c \<Rightarrow> Some c
      | None \<Rightarrow>
          (case find (\<lambda>c. \<exists>h \<in> set headers. lower h = lower c) candidates of
             Some c \<Rightarrow> Some (last (filter (\<lambda>h. lower h = lower c) headers))
           | None \<Rightarrow>
               (case find (\<lambda>c. \<exists>h \<in> set headers. gated_substring c h) candidates of
                  Some c \<Rightarrow> find (gated_substring c) headers
                | None \<Rightarrow> None)))"

definition resolve :: "row_dict \<Rightarrow> string list \<Rightarrow> cell" where
  "resolve row candidates =
     (case resolved_header (map fst row) candidates of
        None \<Rightarrow> PyNone
      | Some h \<Rightarrow> row_get row h)"

subsection \<open>Tables written by the loaders\<close>

text \<open>
  The rows of \<open>app/models.py\<close> without their generated \<open>id\<close>. A training detail keeps
  the columns the loader copies as they are and its date, a day number; \<open>duration\<close> and
  \<open>seats\<close>, which the loader renders with \<open>str\<close> (it cannot raise), are left out.
\<close>

record User =
  username :: string
  hashed_password :: string
  created_at :: nat

record ManagerEmployee =
  manager_empid :: string
  manager_name :: "string option"
  employee_empid :: string
  employee_name :: "string option"
  manager_is_trainer :: bool
  employee_is_trainer :: bool

record Trainer =
  skill :: cell
  competency :: cell
  trainer_name :: cell
  expertise_level :: cell

record TrainingDetail =
  td_division :: cell
  td_department :: cell
  td_competency :: cell
  td_skill :: cell
  training_name :: cell
  training_topics :: cell
  prerequisites :: cell
  skill_category :: cell
  td_trainer_name :: cell
  email :: cell
  training_date :: "nat option"
  td_time :: cell
  training_type :: cell
  assessment_details :: cell

record store =
  users :: "User list"
  manager_employee :: "ManagerEmployee list"
  trainers :: "Trainer list"
  training_details :: "TrainingDetail list"
  store_training_assignments :: "TrainingAssignment list"

text \<open>
  An \<open>AsyncSession\<close>: the rows as last committed, and the rows as the open transaction
  sees them. \<open>commit\<close> checks what the schema declares (\<open>users.username\<close> is unique;
  both columns of \<open>manager_employee\<close> are foreign keys to it and form the primary key;
  the columns of \<open>trainers\<close> and the name columns of \<open>training_details\<close> are
  \<open>nullable=False\<close>) and publishes the transaction; \<open>rollback\<close> discards it.
\<close>

record session =
  committed :: store
  pending :: store

definition constraints_ok :: "store \<Rightarrow> bool" where
  "constraints_ok st =
     (distinct (map username (users st))
      \<and> list_all (\<lambda>r. manager_empid r \<in> set (map username (users st))
                       \<and> employee_empid r \<in> set (map username (users st)))
           (manager_employee st)
      \<and> distinct (map (\<lambda>r. (manager_empid r, employee_empid r)) (manager_employee st))
      \<and> list_all (\<lambda>t. skill t \<noteq> PyNone \<and> competency t \<noteq> PyNone
                       \<and> trainer_name t \<noteq> PyNone \<and> expertise_level t \<noteq> PyNone)
           (trainers st)
      \<and> list_all (\<lambda>d. training_name d \<noteq> PyNone \<and> td_trainer_name d \<noteq> PyNone)
           (training_details st))"

definition commit :: "session \<Rightarrow> error + session" where
  "commit db =
     (if constraints_ok (pending db) then Inr (db \<lparr> committed := pending db \<rparr>)
      else Inl IntegrityError)"

definition rollback :: "session \<Rightarrow> session" where
  "rollback db = db \<lparr> pending := committed db \<rparr>"

datatype outcome = Returned | Raised error

subsection \<open>\<open>load_all_from_excel\<close>\<close>

record sheet =
  headers :: "string list"
  sheet_rows :: "cell list list"

type_synonym workbook = "(string \<times> sheet) list"

definition py_repr_list :: "string list \<Rightarrow> string" where
  "py_repr_list xs = ''['' @ join '', '' (map (\<lambda>x. [CHR 0x27] @ x @ [CHR 0x27]) xs) @ '']''"

definition read_excel :: "workbook \<Rightarrow> string \<Rightarrow> error + sheet" where
  "read_excel excel_file_source sheet_name =
     (case map_of excel_file_source sheet_name of
        Some df \<Rightarrow> Inr df
      | None \<Rightarrow>
          Inl (ValueError (''Sheet '' @ [CHR 0x27] @ sheet_name @ [CHR 0x27]
                 @ '' not found. Available sheets: ''
                 @ py_repr_list (map fst excel_file_source))))"

text \<open>
  \<open>dict(zip(keys, values))\<close>: a key that comes again keeps its place and takes the later
  value.
\<close>

fun dict_set :: "('k \<times> 'v) list \<Rightarrow> 'k \<Rightarrow> 'v \<Rightarrow> ('k \<times> 'v) list" where
  "dict_set [] k v = [(k, v)]"
| "dict_set ((k', v') # rest) k v =
     (if k' = k then (k', v) # rest else (k', v') # dict_set rest k v)"

definition py_dict :: "('k \<times> 'v) list \<Rightarrow> ('k \<times> 'v) list" where
  "py_dict items = foldl (\<lambda>d (k, v). dict_set d k v) [] items"

definition to_records :: "sheet \<Rightarrow> row_dict list" where
  \<comment> \<open>\<open>clean_headers(df).to_dict('records')\<close>\<close>
  "to_records df =
     map (\<lambda>r. py_dict (zip (map clean_header (headers df)) r)) (sheet_rows df)"

text \<open>
  The body of the loop over the rows of \<open>Trainers Details\<close>; \<open>None\<close> is a skipped row.
\<close>

definition process_trainer_row :: "row_dict \<Rightarrow> Trainer option" where
  "process_trainer_row row =
     (let skill_val = py_or (find_column_flexible row [''skill'']) (row_get row ''skill'');
          competency_val =
            py_or (find_column_flexible row [''competency'', ''competence''])
              (row_get row ''competency'');
          trainer_name_val =
            py_or
              (py_or (find_column_flexible row
                        [''trainer_name'', ''trainername'', ''trainer name'', ''trainer''])
                 (find_column_flexible row [''copmetency'', ''name'']))
              (row_get row ''trainer_name'');
          expertise_level_val =
            py_or (find_column_flexible row
                     [''expertise_level'', ''expertiselevel'', ''expertise level'',
                      ''expertise'', ''level''])
              (row_get row ''expertise_level'');
          skill_val = strip_if_str skill_val;
          competency_val = strip_if_str competency_val;
          trainer_name_val = strip_if_str trainer_name_val;
          expertise_level_val = strip_if_str expertise_level_val;
          trainer_name_val =
            (if \<not> truthy trainer_name_val then PyStr ''Not Assigned'' else trainer_name_val);
          missing_fields =
            (if \<not> truthy skill_val then [''skill''] else [])
            @ (if \<not> truthy competency_val then [''competency''] else [])
            @ (if \<not> truthy expertise_level_val then [''expertise_level''] else [])
      in if missing_fields \<noteq> [] then None
         else Some \<lparr> skill = skill_val, competency = competency_val,
                      trainer_name = trainer_name_val,
                      expertise_level = expertise_level_val \<rparr>)"

text \<open>
  The body of the loop over the rows of \<open>Training Details\<close>. \<open>training_name_val\<close> and
  \<open>trainer_name_val\<close> are computed and checked, and the record is then built from
  \<open>row.get("trainingname_program")\<close> and \<open>row.get("trainer_name")\<close>. The date is
  \<open>pd.to_datetime(date_val).date() if pd.notna(date_val) else None\<close>; the parser is the
  argument \<open>to_datetime\<close>, which gives the calendar date of a value, or \<open>None\<close> where
  \<open>pd.to_datetime\<close> raises. \<open>Inl\<close> is that exception, which leaves the loop;
  \<open>Inr None\<close> is a skipped row.
\<close>

definition process_training_row ::
  "(cell \<Rightarrow> nat option) \<Rightarrow> row_dict \<Rightarrow> error + TrainingDetail option" where
  "process_training_row to_datetime row =
     (let training_name_val =
            py_or (find_column_flexible row
                     [''trainingname_program'', ''training_name'', ''trainingname'',
                      ''training name'', ''program'', ''training''])
              (row_get row ''trainingname_program'');
          trainer_name_val =
            py_or (find_column_flexible row
                     [''trainer_name'', ''trainer'', ''trainername'', ''trainer name'',
                      ''copmetency'', ''name''])
              (row_get row ''trainer_name'');
          training_name_val = strip_if_str training_name_val;
          trainer_name_val = strip_if_str trainer_name_val;
          trainer_name_val =
            (if \<not> truthy trainer_name_val then PyStr ''Not Assigned'' else trainer_name_val);
          missing_fields =
            (if \<not> truthy training_name_val then [''trainingname_program''] else [])
      in if missing_fields \<noteq> [] then Inr None
         else
           let date_val = row_get row ''training_dates''
           in if date_val \<noteq> PyNone \<and> to_datetime date_val = None then Inl DateParseError
              else
                Inr (Some \<lparr> td_division = row_get row ''division'',
                             td_department = row_get row ''department'',
                             td_competency = row_get row ''competency'',
                             td_skill = row_get row ''skill'',
                             training_name = row_get row ''trainingname_program'',
                             training_topics = row_get row ''trainingtopics__material'',
                             prerequisites = row_get row ''perquisites'',
                             skill_category = row_get row ''skill_category_(l1_-_l5)'',
                             td_trainer_name = row_get row ''trainer_name'',
                             email = row_get row ''email_id'',
                             training_date =
                               (if date_val \<noteq> PyNone then to_datetime date_val else None),
                             td_time = row_get row ''time'',
                             training_type = row_get row ''training_type'',
                             assessment_details = row_get row ''assessment_details'' \<rparr>))"

fun process_training_rows ::
  "(cell \<Rightarrow> nat option) \<Rightarrow> row_dict list \<Rightarrow> error + TrainingDetail list" where
  "process_training_rows to_datetime [] = Inr []"
| "process_training_rows to_datetime (row # rest) =
     (case process_training_row to_datetime row of
        Inl e \<Rightarrow> Inl e
      | Inr r \<Rightarrow>
          (case process_training_rows to_datetime rest of
             Inl e \<Rightarrow> Inl e
           | Inr trainings_to_add \<Rightarrow>
               Inr (case r of None \<Rightarrow> trainings_to_add
                           | Some d \<Rightarrow> d # trainings_to_add)))"

text \<open>
  The loader up to its commit. The statements on sequences and the renumbering of
  identifiers after the commit change no modelled column, and their failures are caught.
  Every exception before the end of the commit reaches the outer handler, which rolls
  back and raises again.
\<close>

definition load_all_from_excel ::
  "(cell \<Rightarrow> nat option) \<Rightarrow> workbook \<Rightarrow> session \<Rightarrow> outcome \<times> session" where
  "load_all_from_excel to_datetime excel_file_source db =
     (let db1 = db \<lparr> pending := (pending db) \<lparr> store_training_assignments := [],
                                              training_details := [],
                                              trainers := [] \<rparr> \<rparr>
      in case read_excel excel_file_source ''Trainers Details'' of
           Inl e \<Rightarrow> (Raised e, rollback db1)
         | Inr df_trainers \<Rightarrow>
             let trainers_to_add = List.map_filter process_trainer_row (to_records df_trainers)
             in (case read_excel excel_file_source ''Training Details'' of
                   Inl e \<Rightarrow> (Raised e, rollback db1)
                 | Inr df_trainings \<Rightarrow>
                     (case process_training_rows to_datetime (to_records df_trainings) of
                        Inl e \<Rightarrow> (Raised e, rollback db1)
                      | Inr trainings_to_add \<Rightarrow>
                          if trainers_to_add = [] \<and> trainings_to_add = [] then
                            (Raised (ValueError
                               ''No valid data found in Excel file. All rows were skipped during validation.''),
                             rollback db1)
                          else
                            let db2 = db1 \<lparr> pending := (pending db1)
                                  \<lparr> trainers := trainers (pending db1) @ trainers_to_add,
                                    training_details :=
                                      training_details (pending db1) @ trainings_to_add \<rparr> \<rparr>
                            in (case commit db2 of
                                  Inl e \<Rightarrow> (Raised e, rollback db2)
                                | Inr db3 \<Rightarrow> (Returned, db3)))))"

subsection \<open>\<open>load_manager_employee_from_csv\<close>\<close>

text \<open>
  The frame \<open>pd.read_csv\<close> returns: the column names and, for each row, one cell per
  column. A cell is NaN or holds a value, and the loader reads a value twice, as text:
  within its column, by \<open>df[col].dropna().astype(str)\<close>, and within its row, by
  \<open>str(row.get(col))\<close> on the series \<open>iterrows\<close> yields. A value is modelled by these
  two texts, the column text first. They are the same for a text cell; they differ
  where \<open>iterrows\<close> converts the row to one numeric type, as in a frame of integer
  identifiers and empty names, where the identifier 101 reads \<open>101\<close> in its column and
  \<open>101.0\<close> in its row.
\<close>

datatype csv_cell = CsvNaN | CsvValue string string

definition csv_text :: "string \<Rightarrow> csv_cell" where
  "csv_text s = CsvValue s s"

record csv_frame =
  csv_columns :: "string list"
  csv_rows :: "csv_cell list list"

definition clean_columns :: "csv_frame \<Rightarrow> csv_frame" where
  \<comment> \<open>\<open>df.columns.str.strip().str.lower().str.replace(" ", "_")\<close>\<close>
  "clean_columns df =
     df \<lparr> csv_columns :=
            map (\<lambda>c. replace_char (CHR '' '') ''_'' (lower (strip c))) (csv_columns df) \<rparr>"

definition duplicated :: "csv_frame \<Rightarrow> string \<Rightarrow> bool" where
  \<comment> \<open>two columns or more bear the name\<close>
  "duplicated df col = (1 < count_list (csv_columns df) col)"

definition csv_records :: "csv_frame \<Rightarrow> (string \<times> csv_cell) list list" where
  "csv_records df = map (\<lambda>r. zip (csv_columns df) r) (csv_rows df)"

definition column_values :: "csv_frame \<Rightarrow> string \<Rightarrow> string list" where
  \<comment> \<open>\<open>df[col].dropna().astype(str)\<close>, for a name that one column bears\<close>
  "column_values df col =
     List.map_filter
       (\<lambda>r. case map_of r col of Some (CsvValue column_text row_text) \<Rightarrow> Some column_text
                                | _ \<Rightarrow> None)
       (csv_records df)"

definition required_columns :: "string list" where
  "required_columns = [''manager_empid'', ''manager_name'', ''employee_empid'', ''employee_name'']"

definition all_user_ids :: "csv_frame \<Rightarrow> string list" where
  \<comment> \<open>the union of the two sets of identifiers, in order of first appearance\<close>
  "all_user_ids df =
     (let all_manager_ids = remdups (column_values df ''manager_empid'');
          all_employee_ids = remdups (column_values df ''employee_empid'')
      in remdups (all_manager_ids @ all_employee_ids))"

text \<open>
  Steps 3 and 4 of the loader. The hash function and the clock are arguments. The
  accounts are committed on their own, and that commit publishes whatever the
  transaction holds at that point.
\<close>

definition create_missing_users ::
  "(string \<Rightarrow> string) \<Rightarrow> nat \<Rightarrow> csv_frame \<Rightarrow> session \<Rightarrow> error + session" where
  "create_missing_users get_password_hash now df db =
     (let existing_usernames =
            filter (\<lambda>u. u \<in> set (all_user_ids df)) (map username (users (pending db)));
          missing_user_ids = filter (\<lambda>u. u \<notin> set existing_usernames) (all_user_ids df)
      in if missing_user_ids \<noteq> [] then
           let default_password = ''password123'';
               default_password_hash = get_password_hash default_password;
               new_users =
                 map (\<lambda>user_id. \<lparr> username = user_id,
                                   hashed_password = default_password_hash,
                                   created_at = now \<rparr>) missing_user_ids
           in (case commit (db \<lparr> pending := (pending db)
                                   \<lparr> users := users (pending db) @ new_users \<rparr> \<rparr>) of
                 Inl e \<Rightarrow> Inl (ValueError ''Failed to create user accounts: IntegrityError'')
               | Inr db' \<Rightarrow> Inr db')
         else Inr db)"

definition csv_field :: "(string \<times> csv_cell) list \<Rightarrow> string \<Rightarrow> string option" where
  \<comment> \<open>\<open>str(row.get(col, '')).strip() if pd.notna(row.get(col)) else None\<close>\<close>
  "csv_field row col =
     (case map_of row col of
        Some (CsvValue column_text row_text) \<Rightarrow> Some (strip row_text)
      | _ \<Rightarrow> None)"

definition to_bool :: "(string \<times> csv_cell) list \<Rightarrow> string \<Rightarrow> bool" where
  \<comment> \<open>\<open>to_bool(row.get(col, False))\<close>\<close>
  "to_bool row col =
     (case map_of row col of
        Some (CsvValue column_text row_text) \<Rightarrow>
          strip (lower row_text) \<in> {''t'', ''true'', ''1'', ''yes'', ''y''}
      | _ \<Rightarrow> False)"

text \<open>
  The body of the loop over \<open>df.iterrows()\<close>; \<open>None\<close> is a skipped row. Where two
  columns bear one of the names read here, \<open>row.get\<close> gives a series, whose truth
  value raises, and the handler of the loop skips the row.
\<close>

definition process_row :: "csv_frame \<Rightarrow> (string \<times> csv_cell) list \<Rightarrow> ManagerEmployee option" where
  "process_row df row =
     (if duplicated df ''manager_empid'' \<or> duplicated df ''manager_name''
         \<or> duplicated df ''employee_empid'' \<or> duplicated df ''employee_name''
         \<or> duplicated df ''manager_is_trainer'' \<or> duplicated df ''employee_is_trainer''
      then None
      else
        let m_empid = csv_field row ''manager_empid'';
            m_name = csv_field row ''manager_name'';
            e_empid = csv_field row ''employee_empid'';
            e_name = csv_field row ''employee_name''
        in case (m_empid, e_empid) of
             (Some m, Some e) \<Rightarrow>
               if m = [] \<or> e = [] then None
               else Some \<lparr> manager_empid = m, manager_name = m_name,
                            employee_empid = e, employee_name = e_name,
                            manager_is_trainer = to_bool row ''manager_is_trainer'',
                            employee_is_trainer = to_bool row ''employee_is_trainer'' \<rparr>
           | _ \<Rightarrow> None)"

text \<open>
  The loader. \<open>df['manager_empid']\<close> is a frame when two columns bear the name, and a
  frame has no \<open>unique\<close>: collecting the identifiers then raises \<open>AttributeError\<close>.
\<close>

definition load_manager_employee_from_csv ::
  "(string \<Rightarrow> string) \<Rightarrow> nat \<Rightarrow> csv_frame \<Rightarrow> session \<Rightarrow> outcome \<times> session" where
  "load_manager_employee_from_csv get_password_hash now csv_file_source db =
     (let db1 = db \<lparr> pending := (pending db) \<lparr> manager_employee := [] \<rparr> \<rparr>;
          df = clean_columns csv_file_source;
          missing_columns = filter (\<lambda>col. col \<notin> set (csv_columns df)) required_columns
      in if missing_columns \<noteq> [] then
           (Raised (ValueError (''Missing required columns in CSV: ''
                                 @ join '', '' missing_columns)),
            rollback db1)
         else if duplicated df ''manager_empid'' \<or> duplicated df ''employee_empid'' then
           (Raised AttributeError, rollback db1)
         else
           case create_missing_users get_password_hash now df db1 of
             Inl e \<Rightarrow> (Raised e, rollback db1)
           | Inr db2 \<Rightarrow>
               let manager_employees_to_add =
                     List.map_filter (process_row df) (csv_records df)
               in if manager_employees_to_add = [] then
                    (Raised (ValueError
                       ''No valid data found in CSV file. All rows were skipped during validation.''),
                     rollback db2)
                  else
                    let db3 = db2 \<lparr> pending := (pending db2)
                          \<lparr> manager_employee :=
                              manager_employee (pending db2) @ manager_employees_to_add \<rparr> \<rparr>
                    in (case commit db3 of
                          Inl e \<Rightarrow> (Raised e, rollback db3)
                        | Inr db4 \<Rightarrow> (Returned, db4)))"

subsection \<open>Concrete files and sessions\<close>

text \<open>
  A session with nothing pending whose tables hold two accounts and the relationship
  between them; a stand-in for the password hash; and a CSV file whose only row lacks
  the employee identifier.
\<close>

definition example_store :: store where
  "example_store =
     \<lparr> users = [\<lparr> username = ''M0'', hashed_password = ''h0'', created_at = 1 \<rparr>,
                \<lparr> username = ''E0'', hashed_password = ''h1'', created_at = 2 \<rparr>],
       manager_employee =
         [\<lparr> manager_empid = ''M0'', manager_name = Some ''Mia'',
            employee_empid = ''E0'', employee_name = Some ''Eli'',
            manager_is_trainer = False, employee_is_trainer = False \<rparr>],
       trainers = [],
       training_details = [],
       store_training_assignments = [] \<rparr>"

definition example_session :: session where
  "example_session = \<lparr> committed = example_store, pending = example_store \<rparr>"

definition example_hash :: "string \<Rightarrow> string" where
  "example_hash password = ''hashed:'' @ password"

definition csv_without_employee :: csv_frame where
  "csv_without_employee =
     \<lparr> csv_columns = [''manager_empid'', ''manager_name'', ''employee_empid'', ''employee_name''],
       csv_rows = [[csv_text ''M1'', csv_text ''Ann'', CsvNaN, CsvNaN]] \<rparr>"

text \<open>
  Three files of one row each. The first is written without blanks. The other two are
  written with a blank after each comma, so every header and every cell but the first
  starts with a blank: one names a new manager and a new employee, the other the
  manager and the employee that already have accounts. The last frame is the one read
  from a file of integer identifiers and empty names.
\<close>

definition csv_frame_of :: "string list \<Rightarrow> csv_cell list \<Rightarrow> csv_frame" where
  "csv_frame_of columns row = \<lparr> csv_columns = columns, csv_rows = [row] \<rparr>"

definition csv_new_pair :: csv_frame where
  "csv_new_pair =
     csv_frame_of [''manager_empid'', ''manager_name'', ''employee_empid'', ''employee_name'']
       [csv_text ''M5'', csv_text ''Ann'', csv_text ''E5'', csv_text ''Bob'']"

definition csv_padded_new_pair :: csv_frame where
  "csv_padded_new_pair =
     csv_frame_of [''manager_empid'', '' manager_name'', '' employee_empid'', '' employee_name'']
       [csv_text ''M5'', csv_text '' Ann'', csv_text '' E5'', csv_text '' Bob'']"

definition csv_padded_known_pair :: csv_frame where
  "csv_padded_known_pair =
     csv_frame_of [''manager_empid'', '' manager_name'', '' employee_empid'', '' employee_name'']
       [csv_text ''M0'', csv_text '' Mia'', csv_text '' E0'', csv_text '' Eli'']"

definition csv_numeric_pair :: csv_frame where
  "csv_numeric_pair =
     csv_frame_of [''manager_empid'', ''manager_name'', ''employee_empid'', ''employee_name'']
       [CsvValue ''101'' ''101.0'', CsvNaN, CsvValue ''202'' ''202.0'', CsvNaN]"

definition new_account :: "string \<Rightarrow> User" where
  "new_account name =
     \<lparr> username = name, hashed_password = ''hashed:password123'', created_at = 5 \<rparr>"

definition relationship :: "string \<Rightarrow> string \<Rightarrow> string \<Rightarrow> string \<Rightarrow> ManagerEmployee" where
  "relationship m m_name e e_name =
     \<lparr> manager_empid = m, manager_name = Some m_name,
       employee_empid = e, employee_name = Some e_name,
       manager_is_trainer = False, employee_is_trainer = False \<rparr>"

definition session_with :: "User list \<Rightarrow> ManagerEmployee list \<Rightarrow> session" where
  \<comment> \<open>\<open>example_session\<close> with accounts added and the relationship rows replaced,
      nothing pending\<close>
  "session_with accounts relationships =
     \<lparr> committed = example_store \<lparr> users := users example_store @ accounts,
                                   manager_employee := relationships \<rparr>,
       pending = example_store \<lparr> users := users example_store @ accounts,
                                 manager_employee := relationships \<rparr> \<rparr>"

text \<open>
  A workbook with one trainer row and one training row, both with an empty trainer
  name, and the same training row with a trainer name of blanks only.
\<close>

definition example_workbook :: "cell \<Rightarrow> workbook" where
  "example_workbook blank =
     [(''Trainers Details'',
       \<lparr> headers = [''Skill'', ''Competency'', ''Trainer Name'', ''Expertise Level''],
         sheet_rows = [[PyStr ''Java'', PyStr ''Backend'', blank, PyStr ''L3'']] \<rparr>),
      (''Training Details'',
       \<lparr> headers = [''TrainingName/Program'', ''Trainer Name''],
         sheet_rows = [[PyStr ''Python Basics'', blank]] \<rparr>)]"

definition example_training_row :: "cell \<Rightarrow> row_dict" where
  "example_training_row blank =
     [(''trainingname_program'', PyStr ''Python Basics''), (''trainer_name'', blank)]"

definition example_trainer_row :: "cell \<Rightarrow> row_dict" where
  "example_trainer_row blank =
     [(''skill'', PyStr ''Java''), (''competency'', PyStr ''Backend''),
      (''trainer_name'', blank), (''expertise_level'', PyStr ''L3'')]"

definition example_training_detail :: "cell \<Rightarrow> TrainingDetail" where
  "example_training_detail blank =
     \<lparr> td_division = PyNone, td_department = PyNone, td_competency = PyNone,
       td_skill = PyNone, training_name = PyStr ''Python Basics'',
       training_topics = PyNone, prerequisites = PyNone, skill_category = PyNone,
       td_trainer_name = blank, email = PyNone, training_date = None, td_time = PyNone,
       training_type = PyNone, assessment_details = PyNone \<rparr>"

text \<open>The session the file without an employee leaves behind.\<close>

definition store_after_failed_import :: store where
  "store_after_failed_import =
     example_store
       \<lparr> users := users example_store
            @ [\<lparr> username = ''M1'', hashed_password = ''hashed:password123'',
                 created_at = 5 \<rparr>],
         manager_employee := [] \<rparr>"

definition session_after_failed_import :: session where
  "session_after_failed_import =
     \<lparr> committed = store_after_failed_import, pending = store_after_failed_import \<rparr>"

section \<open>Properties of the grader\<close>

lemmas score_eval = calculate_score_def int_true_div_def float_mul_int_def float_to_int_def
  float_overflow_def round_binary64_def floor_log2_def round_half_even_div_def
  bit_length.simps Let_def

lemmas grade_eval = grade_def evaluate_answer_def py_getitem_def correct_indices_of_def

lemmas route_eval = get_username_def select_training_assignment_def example_db_def
  example_submission_def yes_no_question_def answer_yes_def

lemma set_correct_indices_of:
  "set (correct_indices_of opts) = {int i |i. i < length opts \<and> isCorrect (opts ! i)}"
proof -
  have "(i, opts ! i) \<in> set (enumerate 0 opts)" if "i < length opts" for i
    using that by (simp add: in_set_enumerate_eq)
  then show ?thesis
    by (force simp: correct_indices_of_def in_set_enumerate_eq)
qed

lemma py_getitem_in_range:
  "0 \<le> i \<Longrightarrow> i < int (length xs) \<Longrightarrow> py_getitem xs i = Inr (xs ! nat i)"
  by (simp add: py_getitem_def)

lemma evaluate_answers_keeps:
  "evaluate_answers key submitted (c, rs) = Inr (c', rs') \<Longrightarrow> set rs \<subseteq> set rs'"
proof (induction submitted arbitrary: c rs)
  case Nil
  then show ?case by simp
next
  case (Cons x xs)
  then show ?case
    by (fastforce split: sum.splits option.splits)
qed

lemma evaluate_answers_collects:
  "evaluate_answers key submitted (c, rs) = Inr (c', rs') \<Longrightarrow>
   a \<in> set submitted \<Longrightarrow> evaluate_answer key a = Inr (Some qr) \<Longrightarrow> qr \<in> set rs'"
proof (induction submitted arbitrary: c rs)
  case Nil
  then show ?case by simp
next
  case (Cons x xs)
  show ?case
  proof (cases "a = x")
    case True
    with Cons.prems have "evaluate_answers key xs
        (if qr_isCorrect qr then c + 1 else c, rs @ [qr]) = Inr (c', rs')"
      by simp
    from evaluate_answers_keeps [OF this] show ?thesis by simp
  next
    case False
    with Cons.prems have "a \<in> set xs" by simp
    with Cons.prems(1,3) Cons.IH show ?thesis
      by (auto split: sum.splits option.splits)
  qed
qed

lemma evaluate_answers_count:
  "evaluate_answers key submitted (c, rs) = Inr (c', rs') \<Longrightarrow>
   c' + length (filter qr_isCorrect rs) = c + length (filter qr_isCorrect rs')"
proof (induction submitted arbitrary: c rs)
  case Nil
  then show ?case by simp
next
  case (Cons x xs)
  then show ?case
    by (fastforce split: sum.splits option.splits if_splits)
qed

lemma evaluate_answer_in_range:
  assumes "0 \<le> questionIndex a" "questionIndex a < int (length key)"
  shows "\<exists>qr. evaluate_answer key a = Inr (Some qr) \<and>
     (let q = key ! nat (questionIndex a); opts = options q in
        (qtype q = ''single-choice'' \<longrightarrow>
           (qr_isCorrect qr \<longleftrightarrow>
              (\<exists>i<length opts. selectedOptions a = [int i] \<and> isCorrect (opts ! i)))) \<and>
        (qtype q = ''multiple-choice'' \<longrightarrow>
           (qr_isCorrect qr \<longleftrightarrow>
              set (selectedOptions a) = {int i |i. i < length opts \<and> isCorrect (opts ! i)})) \<and>
        (qtype q = ''text-input'' \<longrightarrow> \<not> qr_isCorrect qr))"
proof (cases "selectedOptions a")
  case Nil
  with assms show ?thesis
    by (simp add: evaluate_answer_def py_getitem_in_range Let_def set_correct_indices_of)
next
  case (Cons s rest)
  with assms show ?thesis
    by (auto simp: evaluate_answer_def py_getitem_in_range Let_def set_correct_indices_of)
qed

text \<open>
  Claim C1. Take a graded submission and one of its answers whose question index is
  in range (\<open>0 \<le> index < number of questions\<close>). The result recorded for that answer
  is marked correct, for a single-choice question, exactly when one option is selected
  and the key flags it correct; for a multiple-choice question, exactly when the set of
  selected indices equals the set of indices the key flags correct; and never for a
  text-input question. The count of correct answers is the number of results marked
  correct, the total is the number of questions of the key whatever their type, and the
  score is computed from that count and that total.
\<close>

theorem grader_rules:
  assumes "grade key submitted = Inr g"
    and "a \<in> set submitted"
    and "0 \<le> questionIndex a" and "questionIndex a < int (length key)"
  shows "(\<exists>qr \<in> set (g_question_results g).
            evaluate_answer key a = Inr (Some qr) \<and>
            (let q = key ! nat (questionIndex a); opts = options q in
              (qtype q = ''single-choice'' \<longrightarrow>
                 (qr_isCorrect qr \<longleftrightarrow>
                    (\<exists>i<length opts. selectedOptions a = [int i] \<and> isCorrect (opts ! i)))) \<and>
              (qtype q = ''multiple-choice'' \<longrightarrow>
                 (qr_isCorrect qr \<longleftrightarrow>
                    set (selectedOptions a)
                      = {int i |i. i < length opts \<and> isCorrect (opts ! i)})) \<and>
              (qtype q = ''text-input'' \<longrightarrow> \<not> qr_isCorrect qr)))
         \<and> g_correct_count g = length (filter qr_isCorrect (g_question_results g))
         \<and> g_total_questions g = length key
         \<and> calculate_score (g_correct_count g) (length key) = Inr (g_score g)"
proof -
  from assms(1) obtain c rs where
    run: "evaluate_answers key submitted (0, []) = Inr (c, rs)"
    and sc: "calculate_score c (length key) = Inr (g_score g)"
    and g: "g_correct_count g = c" "g_question_results g = rs"
      "g_total_questions g = length key"
    by (auto simp: grade_def Let_def split: sum.splits)
  from evaluate_answer_in_range [OF assms(3,4)] obtain qr where
    qr: "evaluate_answer key a = Inr (Some qr)"
    and rules: "(let q = key ! nat (questionIndex a); opts = options q in
        (qtype q = ''single-choice'' \<longrightarrow>
           (qr_isCorrect qr \<longleftrightarrow>
              (\<exists>i<length opts. selectedOptions a = [int i] \<and> isCorrect (opts ! i)))) \<and>
        (qtype q = ''multiple-choice'' \<longrightarrow>
           (qr_isCorrect qr \<longleftrightarrow>
              set (selectedOptions a) = {int i |i. i < length opts \<and> isCorrect (opts ! i)})) \<and>
        (qtype q = ''text-input'' \<longrightarrow> \<not> qr_isCorrect qr))"
    by blast
  have "qr \<in> set rs"
    using evaluate_answers_collects [OF run assms(2) qr] .
  moreover have "c = length (filter qr_isCorrect rs)"
    using evaluate_answers_count [OF run] by simp
  ultimately show ?thesis
    using qr rules sc g by auto
qed

lemma example_grade:
  "grade example_key example_answers = Inr example_grading"
  by (simp add: grade_eval score_eval example_key_def example_answers_def
      example_answer_def example_grading_def insert_commute)

theorem grader_rules_witness:
  "grade example_key example_answers = Inr example_grading
   \<and> example_answer \<in> set example_answers
   \<and> 0 \<le> questionIndex example_answer
   \<and> questionIndex example_answer < int (length example_key)
   \<and> ((\<exists>qr \<in> set (g_question_results example_grading).
            evaluate_answer example_key example_answer = Inr (Some qr) \<and>
            (let q = example_key ! nat (questionIndex example_answer); opts = options q in
              (qtype q = ''single-choice'' \<longrightarrow>
                 (qr_isCorrect qr \<longleftrightarrow>
                    (\<exists>i<length opts. selectedOptions example_answer = [int i]
                        \<and> isCorrect (opts ! i)))) \<and>
              (qtype q = ''multiple-choice'' \<longrightarrow>
                 (qr_isCorrect qr \<longleftrightarrow>
                    set (selectedOptions example_answer)
                      = {int i |i. i < length opts \<and> isCorrect (opts ! i)})) \<and>
              (qtype q = ''text-input'' \<longrightarrow> \<not> qr_isCorrect qr)))
         \<and> g_correct_count example_grading
             = length (filter qr_isCorrect (g_question_results example_grading))
         \<and> g_total_questions example_grading = length example_key
         \<and> calculate_score (g_correct_count example_grading) (length example_key)
             = Inr (g_score example_grading))"
proof -
  have h2: "example_answer \<in> set example_answers"
    by (simp add: example_answers_def)
  have h3: "0 \<le> questionIndex example_answer"
    by (simp add: example_answer_def)
  have h4: "questionIndex example_answer < int (length example_key)"
    by (simp add: example_answer_def example_key_def)
  show ?thesis
    by (rule conjI [OF example_grade conjI [OF h2 conjI [OF h3 conjI [OF h4
          grader_rules [OF example_grade h2 h3 h4]]]]])
qed

lemma evaluate_answer_yes:
  "k < m \<Longrightarrow> evaluate_answer (replicate m (yes_no_question True)) (answer_yes (int k)) =
     Inr (Some \<lparr> qr_questionIndex = int k, qr_isCorrect = True, correctAnswers = [0],
                  userAnswers = [0], userTextAnswer = None \<rparr>)"
  by (simp add: evaluate_answer_def py_getitem_def correct_indices_of_def
      yes_no_question_def answer_yes_def)

lemma evaluate_answers_all_yes:
  "k + n \<le> m \<Longrightarrow>
   \<exists>rs'. evaluate_answers (replicate m (yes_no_question True))
            (map (\<lambda>i. answer_yes (int i)) [k..<k + n]) (c, rs) = Inr (c + n, rs')"
proof (induction n arbitrary: k c rs)
  case 0
  then show ?case by simp
next
  case (Suc n)
  have split: "[k..<k + Suc n] = k # [Suc k..<Suc k + n]"
    by (simp add: upt_rec)
  from Suc.prems have "k < m" and "Suc k + n \<le> m" by simp_all
  from Suc.IH [OF this(2)] obtain rs' where
    "evaluate_answers (replicate m (yes_no_question True))
       (map (\<lambda>i. answer_yes (int i)) [Suc k..<Suc k + n])
       (c + 1, rs @ [\<lparr> qr_questionIndex = int k, qr_isCorrect = True, correctAnswers = [0],
                  userAnswers = [0], userTextAnswer = None \<rparr>]) = Inr (c + 1 + n, rs')"
    by blast
  then show ?case
    unfolding split using \<open>k < m\<close> by (simp add: evaluate_answer_yes)
qed

text \<open>
  Claim C4. The score is meant to be \<open>\<lfloor>100 * correct / total\<rfloor>\<close>, and 0 for an empty
  key. The code computes it in floating point: for a key of 50 questions, 29 of them
  answered correctly, \<open>29 / 50\<close> is the float just below 0.58, its product with 100 is
  the float just below 58, and \<open>int\<close> truncates it to 57, while
  \<open>\<lfloor>100 * 29 / 50\<rfloor> = 58\<close>. Seven correct answers out of ten do give 70, and an empty
  key gives 0.
\<close>

theorem score_of_29_out_of_50_is_57:
  "(case grade (replicate 50 (yes_no_question True))
           (map (\<lambda>i. answer_yes (int i)) [0..<29]) of
      Inl e \<Rightarrow> False
    | Inr g \<Rightarrow> g_score g = 57 \<and> g_correct_count g = 29 \<and> g_total_questions g = 50)
   \<and> calculate_score 29 50 = Inr 57
   \<and> (100 * 29) div 50 = (58 :: int)
   \<and> calculate_score 7 10 = Inr 70
   \<and> calculate_score 0 0 = Inr 0"
proof -
  obtain rs where "evaluate_answers (replicate 50 (yes_no_question True))
            (map (\<lambda>i. answer_yes (int i)) [0..<0 + 29]) (0, []) = Inr (0 + 29, rs)"
    using evaluate_answers_all_yes [of 0 29 50 0 "[]"] by auto
  moreover have "calculate_score 29 50 = Inr 57"
    by (simp add: score_eval)
  moreover have "calculate_score 7 10 = Inr 70"
    by (simp add: score_eval)
  moreover have "calculate_score 0 0 = Inr 0"
    by (simp add: calculate_score_def)
  ultimately show ?thesis
    by (simp add: grade_def)
qed

text \<open>
  Claim C5. The stored score is meant to lie between 0 and 100. A submission that
  answers the only question of a key twice, correctly, is accepted; both answers are
  counted, and the score stored in the submission row and returned is 200.
\<close>

theorem repeated_answer_scores_200:
  "\<exists>db' r. submit_assignment (example_db True) (Some ''E100'') 7
              (example_submission [answer_yes 0, answer_yes 0]) = Inr (db', r)
     \<and> map score (assignment_submissions db') = [200]
     \<and> map total_questions (assignment_submissions db') = [1]
     \<and> map correct_answers (assignment_submissions db') = [2]
     \<and> res_score r = 200"
  by (simp add: submit_assignment_def route_eval grade_eval score_eval)

text \<open>
  Claim C6. An answer whose index is outside the key is meant to be dropped. The guard
  only tests \<open>index \<ge> len\<close>: with a key of one question, the index \<open>-1\<close> is graded
  against that question and counted as correct, and the index \<open>-2\<close> raises
  \<open>IndexError\<close>; an index of 1 or more is dropped.
\<close>

theorem negative_index_is_not_dropped:
  "grade [yes_no_question True] [answer_yes (- 1)] =
     Inr \<lparr> g_score = 100, g_total_questions = 1, g_correct_count = 1,
           g_question_results =
             [\<lparr> qr_questionIndex = - 1, qr_isCorrect = True, correctAnswers = [0],
                userAnswers = [0], userTextAnswer = None \<rparr>] \<rparr>
   \<and> grade [yes_no_question True] [answer_yes (- 2)] = Inl IndexError
   \<and> grade [yes_no_question True] [answer_yes 1] =
     Inr \<lparr> g_score = 0, g_total_questions = 1, g_correct_count = 0,
           g_question_results = [] \<rparr>"
  by (simp add: grade_eval score_eval yes_no_question_def answer_yes_def)

text \<open>
  Claim C9. With several submissions of one employee for one shared assignment the
  result is meant to be the latest one. The query is ordered by \<open>submitted_at\<close> and read
  with \<open>scalar_one_or_none\<close>, which raises when there is more than one row: after a
  first submission the result is returned, after a second one the retrieval fails with
  \<open>MultipleResultsFound\<close>.
\<close>

theorem second_submission_breaks_result:
  "case submit_assignment (example_db True) (Some ''E100'') 10
          (example_submission [answer_yes 0]) of
     Inl e \<Rightarrow> False
   | Inr (db1, r1) \<Rightarrow>
      (case submit_assignment db1 (Some ''E100'') 20 (example_submission [answer_yes 0]) of
         Inl e \<Rightarrow> False
       | Inr (db2, r2) \<Rightarrow>
           get_assignment_result db1 (Some ''E100'') 1 = Inr (Some r1)
           \<and> length (assignment_submissions db2) = 2
           \<and> get_assignment_result db2 (Some ''E100'') 1 = Inl MultipleResultsFound)"
  by (simp add: submit_assignment_def get_assignment_result_def
      order_by_submitted_at_desc_def reconstruct_result_def route_eval grade_eval score_eval)

text \<open>
  Claim C3, as stated: before the employee has submitted, the response of the retrieval
  does not depend on the \<open>isCorrect\<close> flags of the key. It does: two databases that
  differ only in those flags, with no submission at all, give different responses.
\<close>

theorem answer_key_flags_in_response:
  "get_shared_assignment (example_db True) (Some ''E100'') 1
     \<noteq> get_shared_assignment (example_db False) (Some ''E100'') 1"
  by (simp add: get_shared_assignment_def route_eval)

text \<open>
  Claim C3, amended: for an employee to whom the training is assigned, when the
  training has a shared assignment, the retrieval returns the stored list of questions
  as it is, with the text of every question and option and every \<open>isCorrect\<close> flag,
  whatever submissions exist.
\<close>

theorem get_shared_assignment_returns_stored_key:
  assumes "u \<noteq> []"
    and "filter (\<lambda>t. ta_training_id t = tid \<and> ta_employee_empid t = u)
           (training_assignments db) = [ta]"
    and "filter (\<lambda>s. sa_training_id s = tid) (shared_assignments db) = [sa]"
  shows "\<exists>r. get_shared_assignment (db \<lparr> assignment_submissions := subs \<rparr>) (Some u) tid
                = Inr (Some r)
             \<and> questions r = assignment_data sa"
  using assms
  by (simp add: get_shared_assignment_def get_username_def select_training_assignment_def)

theorem get_shared_assignment_returns_stored_key_witness:
  "''E100'' \<noteq> []
   \<and> filter (\<lambda>t. ta_training_id t = 1 \<and> ta_employee_empid t = ''E100'')
        (training_assignments (example_db True)) = training_assignments (example_db True)
   \<and> (\<exists>r. get_shared_assignment ((example_db True) \<lparr> assignment_submissions := [] \<rparr>)
              (Some ''E100'') 1 = Inr (Some r)
          \<and> map (map isCorrect \<circ> options) (questions r) = [[True, False]])"
proof -
  have h1: "''E100'' \<noteq> []" by simp
  have h2: "filter (\<lambda>t. ta_training_id t = 1 \<and> ta_employee_empid t = ''E100'')
      (training_assignments (example_db True)) = [hd (training_assignments (example_db True))]"
    by (simp add: example_db_def)
  have h3: "filter (\<lambda>s. sa_training_id s = 1) (shared_assignments (example_db True))
      = [hd (shared_assignments (example_db True))]"
    by (simp add: example_db_def)
  from get_shared_assignment_returns_stored_key [OF h1 h2 h3, of "[]"]
  show ?thesis
    by (auto simp: example_db_def yes_no_question_def)
qed

section \<open>Properties of the column resolver\<close>

lemmas str_eval = clean_header_def strip_def lower_def lower_char_def is_upper_def
  is_space_def replace_char_def

lemma py_in_iff_sublist: "py_in a b \<longleftrightarrow> sublist a b"
  by (induction b) (simp_all add: sublist_Cons_right)

lemma partial_match_iff_gated: "partial_match name key \<longleftrightarrow> gated_substring name key"
  by (auto simp: partial_match_def gated_substring_def contains_either_way_def
      py_in_iff_sublist Let_def)

lemma exact_match_find:
  "exact_match row names = map_option (row_get row) (find (\<lambda>c. c \<in> set (map fst row)) names)"
  by (induction names) simp_all

lemma map_of_keys_lower:
  "map_of (map (\<lambda>k. (f k, k)) (rev ks)) l =
     (if \<exists>h \<in> set ks. f h = l then Some (last (filter (\<lambda>h. f h = l) ks)) else None)"
proof (induction ks)
  case Nil
  then show ?case by simp
next
  case (Cons k ks)
  then show ?case
    by (auto simp: map_add_def filter_empty_conv split: option.splits)
qed

lemma case_insensitive_match_find:
  "case_insensitive_match row names =
     (case find (\<lambda>c. \<exists>h \<in> set (map fst row). lower h = lower c) names of
        Some c \<Rightarrow> Some (row_get row (last (filter (\<lambda>h. lower h = lower c) (map fst row))))
      | None \<Rightarrow> None)"
proof (induction names)
  case Nil
  then show ?case by simp
next
  case (Cons name names)
  have "map_of (row_keys_lower row) (lower name) =
     (if \<exists>h \<in> set (map fst row). lower h = lower name
      then Some (last (filter (\<lambda>h. lower h = lower name) (map fst row))) else None)"
    unfolding row_keys_lower_def by (rule map_of_keys_lower)
  with Cons show ?case by simp
qed

lemma substring_match_find:
  "substring_match row names =
     (case find (\<lambda>c. \<exists>h \<in> set (map fst row). gated_substring c h) names of
        Some c \<Rightarrow> map_option (row_get row) (find (gated_substring c) (map fst row))
      | None \<Rightarrow> None)"
proof (induction names)
  case Nil
  then show ?case by simp
next
  case (Cons name names)
  have pm: "partial_match name = gated_substring name"
    by (rule ext) (rule partial_match_iff_gated)
  show ?case
  proof (cases "find (gated_substring name) (map fst row)")
    case None
    then have "\<not> (\<exists>h \<in> set (map fst row). gated_substring name h)"
      by (simp add: find_None_iff)
    with None Cons show ?thesis by (simp add: pm)
  next
    case (Some key)
    then have "\<exists>h \<in> set (map fst row). gated_substring name h"
      by (auto simp: find_Some_iff)
    with Some show ?thesis by (simp add: pm)
  qed
qed

lemma find_column_flexible_resolve:
  "find_column_flexible row candidates = resolve row candidates"
proof (cases "find (\<lambda>c. c \<in> set (map fst row)) candidates")
  case (Some c)
  then show ?thesis
    by (simp add: find_column_flexible_def resolve_def resolved_header_def exact_match_find)
next
  case exact: None
  show ?thesis
  proof (cases "find (\<lambda>c. \<exists>h \<in> set (map fst row). lower h = lower c) candidates")
    case (Some c)
    with exact show ?thesis
      by (simp add: find_column_flexible_def resolve_def resolved_header_def
          exact_match_find case_insensitive_match_find)
  next
    case ci: None
    show ?thesis
    proof (cases "find (\<lambda>c. \<exists>h \<in> set (map fst row). gated_substring c h) candidates")
      case None
      with exact ci show ?thesis
        by (simp add: find_column_flexible_def resolve_def resolved_header_def
            exact_match_find case_insensitive_match_find substring_match_find)
    next
      case (Some c)
      then have "\<exists>h \<in> set (map fst row). gated_substring c h"
        by (auto simp: find_Some_iff)
      then obtain key where "find (gated_substring c) (map fst row) = Some key"
        by (cases "find (gated_substring c) (map fst row)") (auto simp: find_None_iff)
      with exact ci Some show ?thesis
        by (simp add: find_column_flexible_def resolve_def resolved_header_def
            exact_match_find case_insensitive_match_find substring_match_find)
    qed
  qed
qed

text \<open>
  Claim C7. For every row and every list of candidate names the resolver returns what
  the three passes of the design return: the value under the first candidate that is a
  header; otherwise under a header equal up to case to the first candidate that has
  one; otherwise under a header that contains, or is contained in, the first candidate
  that has such a header, where a candidate of at most three characters matches a
  header in this pass only if the two are equal up to case; otherwise nothing. The
  header \<open>Training Name\<close> is cleaned to \<open>training_name\<close> and found by the exact pass
  for the candidates \<open>trainingname_program\<close>, \<open>training_name\<close>; the header \<open>Program\<close>
  is found for them by the substring pass only; the header \<open>id\<close> and the candidate
  \<open>skill\<close> give nothing.
\<close>

theorem find_column_flexible_three_passes:
  "find_column_flexible row candidates = resolve row candidates
   \<and> (partial_match c h \<and> length c \<le> 3 \<longrightarrow> lower c = lower h)
   \<and> clean_header ''Training Name'' = ''training_name''
   \<and> exact_match [(clean_header ''Training Name'', v)]
        [''trainingname_program'', ''training_name''] = Some v
   \<and> exact_match [(clean_header ''Program'', v)]
        [''trainingname_program'', ''training_name''] = None
   \<and> case_insensitive_match [(clean_header ''Program'', v)]
        [''trainingname_program'', ''training_name''] = None
   \<and> substring_match [(clean_header ''Program'', v)]
        [''trainingname_program'', ''training_name''] = Some v
   \<and> find_column_flexible [(clean_header ''id'', v)] [''skill''] = PyNone"
proof -
  have gate: "partial_match c h \<and> length c \<le> 3 \<longrightarrow> lower c = lower h"
    by (auto simp: partial_match_def Let_def)
  have e1: "clean_header ''Training Name'' = ''training_name''"
    by (simp add: str_eval)
  have e2: "exact_match [(clean_header ''Training Name'', v)]
        [''trainingname_program'', ''training_name''] = Some v"
    by (simp add: str_eval row_get_def)
  have e3: "exact_match [(clean_header ''Program'', v)]
        [''trainingname_program'', ''training_name''] = None"
    by (simp add: str_eval)
  have e4: "case_insensitive_match [(clean_header ''Program'', v)]
        [''trainingname_program'', ''training_name''] = None"
    by (simp add: str_eval row_keys_lower_def)
  have e5: "substring_match [(clean_header ''Program'', v)]
        [''trainingname_program'', ''training_name''] = Some v"
    by (simp add: str_eval row_get_def partial_match_def)
  have e6: "find_column_flexible [(clean_header ''id'', v)] [''skill''] = PyNone"
    by (simp add: find_column_flexible_def str_eval row_keys_lower_def partial_match_def)
  from find_column_flexible_resolve gate e1 e2 e3 e4 e5 e6 show ?thesis
    by blast
qed

theorem find_column_flexible_three_passes_witness:
  "resolve [(''Skill'', PyStr ''Java'')] [''skill''] = PyStr ''Java''
   \<and> partial_match ''id'' ''ID'' \<and> length ''id'' \<le> 3 \<and> lower ''id'' = lower ''ID''"
proof -
  have pm: "partial_match ''id'' ''ID''"
    by (simp add: partial_match_def str_eval)
  have len: "length ''id'' \<le> 3" by simp
  have found: "find_column_flexible [(''Skill'', PyStr ''Java'')] [''skill''] = PyStr ''Java''"
    by (simp add: find_column_flexible_def str_eval row_keys_lower_def row_get_def)
  from find_column_flexible_three_passes
    [of "[(''Skill'', PyStr ''Java'')]" "[''skill'']" "''id''" "''ID''" PyNone]
  show ?thesis
    using pm len found by simp
qed

section \<open>Properties of the loaders\<close>

lemmas xl_eval = load_all_from_excel_def read_excel_def to_records_def py_dict_def
  process_trainer_row_def process_training_row_def find_column_flexible_def
  row_keys_lower_def partial_match_def row_get_def py_or_def commit_def rollback_def
  constraints_ok_def Let_def

lemmas csv_eval = load_manager_employee_from_csv_def create_missing_users_def
  clean_columns_def csv_records_def column_values_def required_columns_def all_user_ids_def
  csv_field_def to_bool_def process_row_def duplicated_def csv_text_def csv_frame_of_def
  commit_def rollback_def constraints_ok_def Let_def

lemmas example_eval = example_session_def example_store_def example_hash_def
  session_with_def new_account_def relationship_def

text \<open>
  The Excel loader commits nothing before its last step, so whenever it raises, the
  committed tables are the ones it started from and nothing is left pending.
\<close>

lemma load_all_from_excel_failure:
  "load_all_from_excel to_datetime wb db = (Raised e, db')
   \<Longrightarrow> db' = db \<lparr> pending := committed db \<rparr>"
  by (auto simp: load_all_from_excel_def rollback_def Let_def commit_def
      split: sum.splits if_splits)

text \<open>
  Claim C2. An import in which every row is skipped is meant to fail and to leave the
  target tables as they were, for each loader. \<open>load_manager_employee_from_csv\<close> deletes
  the rows of \<open>manager_employee\<close> and then commits the accounts it creates for unknown
  identifiers; that commit publishes the deletion. For a file whose only row names a new
  manager and no employee, the row is skipped and the import fails, but the committed
  \<open>manager_employee\<close> table has lost its row and \<open>users\<close> has gained an account; the
  rollback has nothing left to undo.
\<close>

theorem failed_csv_import_empties_table:
  "List.map_filter (process_row (clean_columns csv_without_employee))
     (csv_records (clean_columns csv_without_employee)) = []
   \<and> load_manager_employee_from_csv example_hash 5 csv_without_employee example_session =
       (Raised (ValueError
          ''No valid data found in CSV file. All rows were skipped during validation.''),
        session_after_failed_import)
   \<and> length (manager_employee (committed example_session)) = 1
   \<and> manager_employee (committed session_after_failed_import) = []
   \<and> map username (users (committed example_session)) = [''M0'', ''E0'']
   \<and> map username (users (committed session_after_failed_import)) = [''M0'', ''E0'', ''M1'']"
  by (simp add: csv_eval str_eval example_session_def example_store_def example_hash_def
      csv_without_employee_def session_after_failed_import_def store_after_failed_import_def)

text \<open>
  Claim C10. A row with an empty trainer name is meant to be stored with the trainer
  name \<open>Not Assigned\<close>, in both sheets. For \<open>Trainers Details\<close> it is. For
  \<open>Training Details\<close> the placeholder is computed into \<open>trainer_name_val\<close>, and the
  record is built from \<open>row.get("trainer_name")\<close>: an absent name stays absent, a name
  of blanks stays as it is. The column is \<open>nullable=False\<close>, so the absent name makes
  the commit fail and the whole import is rolled back. The rows have no date, so this
  holds whatever the date parser does.
\<close>

theorem training_row_keeps_blank_trainer_name:
  "process_trainer_row (example_trainer_row PyNone) =
     Some \<lparr> skill = PyStr ''Java'', competency = PyStr ''Backend'',
            trainer_name = PyStr ''Not Assigned'', expertise_level = PyStr ''L3'' \<rparr>
   \<and> process_training_row to_datetime (example_training_row PyNone)
       = Inr (Some (example_training_detail PyNone))
   \<and> process_training_row to_datetime (example_training_row (PyStr ''   ''))
       = Inr (Some (example_training_detail (PyStr ''   '')))
   \<and> td_trainer_name (example_training_detail PyNone) = PyNone
   \<and> load_all_from_excel to_datetime (example_workbook PyNone) example_session
       = (Raised IntegrityError, example_session)
   \<and> map td_trainer_name
        (training_details (committed (snd
           (load_all_from_excel to_datetime (example_workbook (PyStr ''   ''))
              example_session))))
       = [PyStr ''   '']"
proof -
  have a: "process_trainer_row (example_trainer_row PyNone) =
     Some \<lparr> skill = PyStr ''Java'', competency = PyStr ''Backend'',
            trainer_name = PyStr ''Not Assigned'', expertise_level = PyStr ''L3'' \<rparr>"
    by (simp add: xl_eval str_eval example_trainer_row_def)
  have b: "process_training_row to_datetime (example_training_row PyNone)
       = Inr (Some (example_training_detail PyNone))"
    by (simp add: xl_eval str_eval example_training_row_def example_training_detail_def)
  have c: "process_training_row to_datetime (example_training_row (PyStr ''   ''))
       = Inr (Some (example_training_detail (PyStr ''   '')))"
    by (simp add: xl_eval str_eval example_training_row_def example_training_detail_def)
  have d: "td_trainer_name (example_training_detail PyNone) = PyNone"
    by (simp add: example_training_detail_def)
  have e: "load_all_from_excel to_datetime (example_workbook PyNone) example_session
       = (Raised IntegrityError, example_session)"
    by (simp add: xl_eval str_eval example_workbook_def example_session_def example_store_def)
  have f: "map td_trainer_name
        (training_details (committed (snd
           (load_all_from_excel to_datetime (example_workbook (PyStr ''   ''))
              example_session))))
       = [PyStr ''   '']"
    by (simp add: xl_eval str_eval example_workbook_def example_session_def example_store_def)
  from a b c d e f show ?thesis by blast
qed

text \<open>
  The frame of integer identifiers and empty names: the accounts are named after the
  column texts \<open>101\<close> and \<open>202\<close>, the row carries \<open>101.0\<close> and \<open>202.0\<close>, and the commit
  of the row fails.
\<close>

lemma numeric_frame_import_fails:
  "load_manager_employee_from_csv example_hash 5 csv_numeric_pair example_session
     = (Raised IntegrityError, session_with [new_account ''101'', new_account ''202''] [])
   \<and> map manager_empid
        (List.map_filter (process_row (clean_columns csv_numeric_pair))
           (csv_records (clean_columns csv_numeric_pair))) = [''101.0'']"
  by (simp add: csv_eval str_eval example_eval csv_numeric_pair_def)

text \<open>
  Claim C8. Every identifier of a relationship row that has no account is meant to get
  one, committed before the rows are inserted, so that both usernames exist when the
  rows are committed; an identifier that has an account is meant to get no other. For a
  file written without blanks this is what happens: the accounts \<open>M5\<close> and \<open>E5\<close> are
  created and the row is inserted. The accounts are named after the cells as read, the
  rows after the cells stripped. For the same row written with a blank after each
  comma, the accounts created are \<open>M5\<close> and \<open> E5\<close> with its blank, the row refers to
  \<open>E5\<close>, which has no account when the row is committed, and the import fails with
  \<open>IntegrityError\<close>, the former rows deleted. For a row naming the existing \<open>M0\<close> and
  \<open>E0\<close> in that way, the import succeeds and \<open>E0\<close> gets a second account, \<open> E0\<close>.
\<close>

theorem padded_identifier_gets_wrong_account:
  "load_manager_employee_from_csv example_hash 5 csv_new_pair example_session
     = (Returned,
        session_with [new_account ''M5'', new_account ''E5'']
          [relationship ''M5'' ''Ann'' ''E5'' ''Bob''])
   \<and> List.map_filter (process_row (clean_columns csv_padded_new_pair))
        (csv_records (clean_columns csv_padded_new_pair))
       = [relationship ''M5'' ''Ann'' ''E5'' ''Bob'']
   \<and> load_manager_employee_from_csv example_hash 5 csv_padded_new_pair example_session
       = (Raised IntegrityError,
          session_with [new_account ''M5'', new_account '' E5''] [])
   \<and> ''E5'' \<notin> set (map username (users (committed
          (session_with [new_account ''M5'', new_account '' E5''] []))))
   \<and> load_manager_employee_from_csv example_hash 5 csv_padded_known_pair example_session
       = (Returned,
          session_with [new_account '' E0''] [relationship ''M0'' ''Mia'' ''E0'' ''Eli''])
   \<and> map username (users (committed
          (session_with [new_account '' E0''] [relationship ''M0'' ''Mia'' ''E0'' ''Eli''])))
       = [''M0'', ''E0'', '' E0'']"
proof -
  have clean: "load_manager_employee_from_csv example_hash 5 csv_new_pair example_session
     = (Returned,
        session_with [new_account ''M5'', new_account ''E5'']
          [relationship ''M5'' ''Ann'' ''E5'' ''Bob''])"
    by (simp add: csv_eval str_eval example_eval csv_new_pair_def)
  have rows: "List.map_filter (process_row (clean_columns csv_padded_new_pair))
        (csv_records (clean_columns csv_padded_new_pair))
       = [relationship ''M5'' ''Ann'' ''E5'' ''Bob'']"
    by (simp add: csv_eval str_eval example_eval csv_padded_new_pair_def)
  have padded: "load_manager_employee_from_csv example_hash 5 csv_padded_new_pair
        example_session
       = (Raised IntegrityError,
          session_with [new_account ''M5'', new_account '' E5''] [])"
    by (simp add: csv_eval str_eval example_eval csv_padded_new_pair_def)
  have absent: "''E5'' \<notin> set (map username (users (committed
          (session_with [new_account ''M5'', new_account '' E5''] []))))"
    by (simp add: example_eval)
  have known: "load_manager_employee_from_csv example_hash 5 csv_padded_known_pair
        example_session
       = (Returned,
          session_with [new_account '' E0''] [relationship ''M0'' ''Mia'' ''E0'' ''Eli''])"
    by (simp add: csv_eval str_eval example_eval csv_padded_known_pair_def)
  have names: "map username (users (committed
          (session_with [new_account '' E0''] [relationship ''M0'' ''Mia'' ''E0'' ''Eli''])))
       = [''M0'', ''E0'', '' E0'']"
    by (simp add: example_eval)
  from clean rows padded absent known names show ?thesis by blast
qed

end
